theory Spec2Isabelle
  imports Main "HOL-Library.AList"
begin

section \<open>merge-from-chromium.py: values, errors and effects\<close>

text \<open>
  The script is Python 2. The values that occur in the manifest dictionaries are strings,
  \<open>None\<close>, booleans and \<open>FromImpl\<close> objects (which carry a module name).
\<close>

datatype pyval = PyNone | PyBool bool | PyStr string | PyFrom string

text \<open>Python truthiness: \<open>None\<close>, \<open>False\<close> and the empty string are false; an
  instance of a class with neither \<open>__nonzero__\<close> nor \<open>__len__\<close> is true.\<close>

fun truthy :: "pyval \<Rightarrow> bool" where
  "truthy PyNone = False"
| "truthy (PyBool b) = b"
| "truthy (PyStr s) = (s \<noteq> [])"
| "truthy (PyFrom m) = True"

text \<open>Every exception the script raises itself, or that a primitive it calls raises.
  \<open>PyException\<close> is the plain \<open>Exception\<close> class; \<open>SystemExit\<close> is what optparse
  raises; \<open>External\<close> stands for an exception of a collaborator (the license tools, the
  manifest's own code, the operating system).\<close>

datatype error =
    PyException string
  | RuntimeError string
  | KeyError string
  | AttributeError string
  | TypeError string
  | IndexError string
  | SystemExit int
  | External string

text \<open>Observable effects, in the order they happen: a child process (arguments, working
  directory, return code, standard output), a line printed on standard output, the two
  lines \<open>_GetCommandStdout\<close> prints on standard error for a failed command, the usage
  text of optparse, a prompt shown by \<open>raw_input\<close>, and a file written.\<close>

datatype event =
    Cmd "string list" string int string
  | Print string
  | PrintErr string
  | CommandFailedDiag "string list" string
  | PrintHelp
  | Prompt string
  | FileWrite string string

type_synonym dict = "string \<rightharpoonup> pyval"

text \<open>The dictionary \<open>exec\<close> leaves in \<open>tmp_locals\<close>: the names the manifest assigned.
  A name the manifest did not assign is \<open>None\<close> here and a \<open>KeyError\<close> in Python.\<close>

record deps_vars =
  deps :: "dict option"
  deps_os :: "(string \<rightharpoonup> dict) option"
  vars :: "dict option"

record merge_info =
  url :: string
  sha1 :: string

text \<open>The state threaded through the script: the outside world (repositories, file
  system, operator), the effects so far, and whether the global \<open>webview_licenses\<close> has
  been imported (it is \<open>None\<close> until \<open>_MergeProjects\<close> imports it).\<close>

record 'w st =
  world :: 'w
  events :: "event list"
  webview_licenses :: bool

type_synonym ('a, 'w) prog = "'w st \<Rightarrow> (error + 'a) \<times> 'w st"

definition returnE :: "'a \<Rightarrow> ('a, 'w) prog" where
  "returnE x s = (Inr x, s)"

definition raiseE :: "error \<Rightarrow> ('a, 'w) prog" where
  "raiseE e s = (Inl e, s)"

definition thenE :: "('a, 'w) prog \<Rightarrow> ('a \<Rightarrow> ('b, 'w) prog) \<Rightarrow> ('b, 'w) prog" where
  "thenE m f s = (case m s of (Inl e, s') \<Rightarrow> (Inl e, s') | (Inr x, s') \<Rightarrow> f x s')"

definition emit :: "event \<Rightarrow> (unit, 'w) prog" where
  "emit e s = (Inr (), s\<lparr>events := events s @ [e]\<rparr>)"

text \<open>A \<open>for\<close> loop whose body can raise: the first exception ends the loop.\<close>

fun for_each :: "('a \<Rightarrow> (unit, 'w) prog) \<Rightarrow> 'a list \<Rightarrow> (unit, 'w) prog" where
  "for_each body [] s = (Inr (), s)"
| "for_each body (x # xs) s =
     (case body x s of (Inl e, s') \<Rightarrow> (Inl e, s') | (Inr u, s') \<Rightarrow> for_each body xs s')"

section \<open>String primitives\<close>

definition newline :: char where
  "newline = CHR 0x0A"

text \<open>\<open>os.path.join(a, b)\<close> on POSIX: an absolute \<open>b\<close> replaces \<open>a\<close>.\<close>

definition path_join :: "string \<Rightarrow> string \<Rightarrow> string" where
  "path_join a b =
     (if b \<noteq> [] \<and> hd b = CHR ''/'' then b
      else if a = [] \<or> last a = CHR ''/'' then a @ b
      else a @ ''/'' @ b)"

text \<open>\<open>sep.join(xs)\<close>.\<close>

fun py_join :: "string \<Rightarrow> string list \<Rightarrow> string" where
  "py_join sep [] = []"
| "py_join sep [x] = x"
| "py_join sep (x # y # ys) = x @ sep @ py_join sep (y # ys)"

text \<open>The lines of a text, as \<open>^\<close> and \<open>$\<close> see them under \<open>re.MULTILINE\<close>: the pieces
  between newline characters.\<close>

fun lines_acc :: "string \<Rightarrow> string \<Rightarrow> string list" where
  "lines_acc cur [] = [cur]"
| "lines_acc cur (c # cs) =
     (if c = newline then cur # lines_acc [] cs else lines_acc (cur @ [c]) cs)"

definition text_lines :: "string \<Rightarrow> string list" where
  "text_lines s = lines_acc [] s"

text \<open>\<open>s.split()\<close>: the maximal runs of non-whitespace characters.\<close>

definition is_space :: "char \<Rightarrow> bool" where
  "is_space c = (c \<in> set [CHR '' '', CHR 0x09, CHR 0x0A, CHR 0x0B, CHR 0x0C, CHR 0x0D])"

fun split_acc :: "string \<Rightarrow> string \<Rightarrow> string list" where
  "split_acc cur [] = (if cur = [] then [] else [cur])"
| "split_acc cur (c # cs) =
     (if is_space c then (if cur = [] then split_acc [] cs else cur # split_acc [] cs)
      else split_acc (cur @ [c]) cs)"

definition py_split :: "string \<Rightarrow> string list" where
  "py_split s = split_acc [] s"

definition is_digit :: "char \<Rightarrow> bool" where
  "is_digit c = (c \<in> set ''0123456789'')"

section \<open>The manifest's \<open>Var\<close> lookup\<close>

text \<open>\<open>_VarImpl.Lookup\<close>: \<open>custom_vars\<close> first, then the \<open>vars\<close> entry of the local
  scope (\<open>{}\<close> when the manifest has not assigned \<open>vars\<close>), else \<open>Exception\<close>.\<close>

definition Lookup :: "dict \<Rightarrow> deps_vars \<Rightarrow> string \<Rightarrow> error + pyval" where
  "Lookup custom_vars local_scope var_name =
     (if var_name \<in> dom custom_vars then Inr (the (custom_vars var_name))
      else if var_name \<in> dom (case vars local_scope of None \<Rightarrow> Map.empty | Some d \<Rightarrow> d)
      then Inr (the ((the (vars local_scope)) var_name))
      else Inl (PyException (''Var is not defined: '' @ var_name)))"

section \<open>The revision resolver\<close>

text \<open>\<open>d.get(k)\<close>: \<open>None\<close> for a missing key.\<close>

definition dict_get :: "dict \<Rightarrow> string \<Rightarrow> pyval" where
  "dict_get d k = (case d k of None \<Rightarrow> PyNone | Some v \<Rightarrow> v)"

text \<open>The inner \<open>for deps in deps_fallback_order\<close> loop with its \<open>else\<close>: the value
  of \<open>url_plus_sha1\<close> at the \<open>break\<close>, or \<open>None\<close> when the loop ran to its end and the
  \<open>else\<close> branch raises.\<close>

fun find_entry :: "dict list \<Rightarrow> string \<Rightarrow> pyval option" where
  "find_entry [] key = None"
| "find_entry (d # rest) key =
     (if truthy (dict_get d key) then Some (dict_get d key) else find_entry rest key)"

text \<open>\<open>re.match('(.*?)@(.*)', s)\<close> and its two groups. The dot does not match a
  newline, so the lazy first group ends at the first \<open>@\<close> of the first line and the
  second group ends with that line; \<open>None\<close> when the first line has no \<open>@\<close>.\<close>

definition match_url_sha1 :: "string \<Rightarrow> (string \<times> string) option" where
  "match_url_sha1 s =
     (let pre = takeWhile (\<lambda>c. c \<noteq> CHR ''@'' \<and> c \<noteq> newline) s in
      case drop (length pre) s of
        [] \<Rightarrow> None
      | c # cs \<Rightarrow> if c = CHR ''@'' then Some (pre, takeWhile (\<lambda>c. c \<noteq> newline) cs) else None)"

definition missing_entry_message :: "string \<Rightarrow> string" where
  "missing_entry_message path =
     ''Could not find .DEPS.git entry for project '' @ path @
     ''. This probably means that the project list in snapshot.py needs to be updated.''"

definition got_url_message :: "string \<Rightarrow> string \<Rightarrow> string \<Rightarrow> string" where
  "got_url_message u r path = ''  Got URL '' @ u @ '' and SHA1 '' @ r @ '' for project '' @ path"

text \<open>The body of \<open>for path in third_party_projects\<close>: find the entry, match it, print,
  store. \<open>re.match\<close> raises \<open>TypeError\<close> on a value that is not a string, and
  \<open>match.group\<close> raises \<open>AttributeError\<close> when the match is \<open>None\<close>.\<close>

definition resolve_project ::
  "dict list \<Rightarrow> string \<Rightarrow> (string \<times> merge_info) list \<Rightarrow> ((string \<times> merge_info) list, 'w) prog" where
  "resolve_project deps_fallback_order path result =
     (case find_entry deps_fallback_order (path_join ''src'' path) of
        None \<Rightarrow> raiseE (RuntimeError (missing_entry_message path))
      | Some (PyStr url_plus_sha1) \<Rightarrow>
          (case match_url_sha1 url_plus_sha1 of
             None \<Rightarrow> raiseE (AttributeError ''group'')
           | Some (u, r) \<Rightarrow>
               thenE (emit (Print (got_url_message u r path)))
                 (\<lambda>_. returnE (AList.update path \<lparr>url = u, sha1 = r\<rparr> result)))
      | Some v \<Rightarrow> raiseE (TypeError ''expected string or buffer''))"

fun resolve_projects ::
  "dict list \<Rightarrow> string list \<Rightarrow> (string \<times> merge_info) list \<Rightarrow> ((string \<times> merge_info) list, 'w) prog" where
  "resolve_projects order [] result s = (Inr result, s)"
| "resolve_projects order (path # paths) result s =
     (case resolve_project order path result s of
        (Inl e, s') \<Rightarrow> (Inl e, s')
      | (Inr result', s') \<Rightarrow> resolve_projects order paths result' s')"

text \<open>\<open>_GetThirdPartyProjectMergeInfo\<close>. Building \<open>deps_fallback_order\<close> subscripts
  \<open>deps_vars\<close> three times, each a \<open>KeyError\<close> when the key is missing. The result
  dictionary is kept as an association list in insertion order.\<close>

definition GetThirdPartyProjectMergeInfo ::
  "string list \<Rightarrow> deps_vars \<Rightarrow> ((string \<times> merge_info) list, 'w) prog" where
  "GetThirdPartyProjectMergeInfo third_party_projects dv =
     (case deps dv of
        None \<Rightarrow> raiseE (KeyError ''deps'')
      | Some d \<Rightarrow>
          (case deps_os dv of
             None \<Rightarrow> raiseE (KeyError ''deps_os'')
           | Some os \<Rightarrow>
               (case os ''unix'' of
                  None \<Rightarrow> raiseE (KeyError ''unix'')
                | Some u \<Rightarrow>
                    (case os ''android'' of
                       None \<Rightarrow> raiseE (KeyError ''android'')
                     | Some a \<Rightarrow> resolve_projects [d, u, a] third_party_projects []))))"


section \<open>Small manifests for worked examples\<close>

definition example_state :: "unit st" where
  "example_state = \<lparr>world = (), events = [], webview_licenses = False\<rparr>"

definition manifest_of :: "dict \<Rightarrow> dict \<Rightarrow> dict \<Rightarrow> deps_vars" where
  "manifest_of d u a = \<lparr>deps = Some d, deps_os = Some [''unix'' \<mapsto> u, ''android'' \<mapsto> a], vars = None\<rparr>"

section \<open>The outside world\<close>

text \<open>The result of \<open>optparse\<close>: the three options, with their defaults filled in, and the
  positional arguments; or the exit optparse performs itself (\<open>--help\<close>, a bad option).\<close>

record options =
  opt_git_url :: string
  opt_git_branch :: string
  opt_svn_revision :: "string option"

datatype parse_result = Parsed options "string list" | ParseExit int

text \<open>
  Everything the script reaches outside itself is a parameter, a function of the world:
  \<^item> \<open>REPOSITORY_ROOT\<close>, computed from the script's own location;
  \<^item> \<open>popen\<close>: \<open>subprocess.Popen(args, cwd).communicate()\<close>, giving the return code,
    standard output and standard error, or the exception \<open>Popen\<close> raises;
  \<^item> \<open>exec_manifest\<close>: \<open>exec(deps_content)\<close> with \<open>Var\<close> bound to the given lookup,
    giving the names the manifest assigned;
  \<^item> \<open>raw_input\<close>, the operator's answer to a prompt;
  \<^item> \<open>import_license_tools\<close>: the imports of \<open>webview_licenses\<close> and
    \<open>known_incompatible\<close>, giving \<open>KNOWN_INCOMPATIBLE.iteritems()\<close>;
  \<^item> \<open>GetIncompatibleDirectories\<close> and \<open>GenerateNoticeFile_ext\<close> of
    \<open>webview_licenses\<close>;
  \<^item> \<open>write_file\<close>: opening a file for writing and writing it;
  \<^item> \<open>parse_args\<close>: \<open>parser.parse_args()\<close> on the argument vector.
\<close>

record 'w ext =
  REPOSITORY_ROOT :: string
  popen :: "string list \<Rightarrow> string \<Rightarrow> 'w \<Rightarrow> (error + int \<times> string \<times> string) \<times> 'w"
  exec_manifest :: "(deps_vars \<Rightarrow> string \<Rightarrow> error + pyval) \<Rightarrow> string \<Rightarrow> 'w \<Rightarrow> (error + deps_vars) \<times> 'w"
  raw_input :: "string \<Rightarrow> 'w \<Rightarrow> (error + string) \<times> 'w"
  import_license_tools :: "'w \<Rightarrow> (error + (string \<times> string list) list) \<times> 'w"
  GetIncompatibleDirectories :: "'w \<Rightarrow> (error + string list) \<times> 'w"
  GenerateNoticeFile_ext :: "'w \<Rightarrow> (error + string) \<times> 'w"
  write_file :: "string \<Rightarrow> string \<Rightarrow> 'w \<Rightarrow> (error + unit) \<times> 'w"
  parse_args :: "string list \<Rightarrow> parse_result"

definition call_world :: "('w \<Rightarrow> (error + 'a) \<times> 'w) \<Rightarrow> ('a, 'w) prog" where
  "call_world f s = (case f (world s) of (r, w') \<Rightarrow> (r, s\<lparr>world := w'\<rparr>))"

text \<open>Programs that may never return (the operator can be asked forever): \<open>None\<close> is
  a run that does not end.\<close>

type_synonym ('a, 'w) pprog = "'w st \<Rightarrow> ((error + 'a) \<times> 'w st) option"

definition liftP :: "('a, 'w) prog \<Rightarrow> ('a, 'w) pprog" where
  "liftP m s = Some (m s)"

definition thenP :: "('a, 'w) pprog \<Rightarrow> ('a \<Rightarrow> ('b, 'w) pprog) \<Rightarrow> ('b, 'w) pprog" where
  "thenP m f s =
     (case m s of
        None \<Rightarrow> None
      | Some (Inl e, s') \<Rightarrow> Some (Inl e, s')
      | Some (Inr x, s') \<Rightarrow> f x s')"

fun for_eachP :: "('a \<Rightarrow> (unit, 'w) pprog) \<Rightarrow> 'a list \<Rightarrow> (unit, 'w) pprog" where
  "for_eachP body [] s = Some (Inr (), s)"
| "for_eachP body (x # xs) s =
     (case body x s of
        None \<Rightarrow> None
      | Some (Inl e, s') \<Rightarrow> Some (Inl e, s')
      | Some (Inr u, s') \<Rightarrow> for_eachP body xs s')"

section \<open>Constants of the script\<close>

definition AUTOGEN_MESSAGE :: string where
  "AUTOGEN_MESSAGE = ''This commit was generated by merge-from-chromium.py.''"

definition THIRD_PARTY_PROJECTS :: "string list" where
  "THIRD_PARTY_PROJECTS =
    [''googleurl'',
     ''sdch/open-vcdiff'',
     ''testing/gmock'',
     ''testing/gtest'',
     ''third_party/WebKit'',
     ''third_party/angle'',
     ''third_party/cacheinvalidation/files/src/google'',
     ''third_party/freetype'',
     ''third_party/hunspell'',
     ''third_party/hunspell_dictionaries'',
     ''third_party/icu'',
     ''third_party/leveldatabase/src'',
     ''third_party/libjingle/source'',
     ''third_party/libphonenumber/src/phonenumbers'',
     ''third_party/libphonenumber/src/resources'',
     ''third_party/libphonenumber/src/test'',
     ''third_party/openssl'',
     ''third_party/ots'',
     ''third_party/pyftpdlib/src'',
     ''third_party/skia/include'',
     ''third_party/skia/gyp'',
     ''third_party/skia/src'',
     ''third_party/smhasher/src'',
     ''tools/grit'',
     ''tools/gyp'',
     ''v8'']"

definition ALL_PROJECTS :: "string list" where
  "ALL_PROJECTS = [''.''] @ THIRD_PARTY_PROJECTS"

section \<open>Running commands and reading the manifest\<close>

text \<open>\<open>_GetCommandStdout\<close>: the standard output when the return code is 0 or errors are
  ignored; otherwise two lines on standard error and \<open>Exception\<close>.\<close>

definition GetCommandStdout :: "'w ext \<Rightarrow> string list \<Rightarrow> string \<Rightarrow> bool \<Rightarrow> (string, 'w) prog" where
  "GetCommandStdout X args cwd ignore_errors =
     thenE (call_world (popen X args cwd)) (\<lambda>(returncode, stdout, stderr).
     thenE (emit (Cmd args cwd returncode stdout)) (\<lambda>_.
       if returncode = 0 \<or> ignore_errors then returnE stdout
       else thenE (emit (CommandFailedDiag args stderr)) (\<lambda>_.
            raiseE (PyException ''Command execution failed''))))"

definition ReadGitFile :: "'w ext \<Rightarrow> string \<Rightarrow> string \<Rightarrow> string \<Rightarrow> string \<Rightarrow> (string, 'w) prog" where
  "ReadGitFile X git_url git_branch sha path =
     thenE (GetCommandStdout X [''git'', ''fetch'', ''-f'', git_url, git_branch @ '':cached_upstream'']
              (REPOSITORY_ROOT X) False) (\<lambda>_.
     GetCommandStdout X [''git'', ''show'', sha @ '':'' @ path] (REPOSITORY_ROOT X) False)"

text \<open>\<open>_ParseDEPS\<close>: \<open>Var\<close> is \<open>_VarImpl({}, tmp_locals).Lookup\<close>.\<close>

definition ParseDEPS :: "'w ext \<Rightarrow> string \<Rightarrow> string \<Rightarrow> string \<Rightarrow> (deps_vars, 'w) prog" where
  "ParseDEPS X git_url git_branch sha =
     thenE (ReadGitFile X git_url git_branch sha ''.DEPS.git'') (\<lambda>deps_content.
     call_world (exec_manifest X (Lookup Map.empty) deps_content))"

section \<open>Conflicts and the merge commit\<close>

text \<open>\<open>[x[1] for x in re.findall(r'^(DD|DU) ([^\n]+)$', status, flags=re.MULTILINE)]\<close>:
  of every line that is \<open>DD\<close> or \<open>DU\<close>, a space and at least one more character, the
  part after the space.\<close>

definition conflicts_deleted_by_us :: "string \<Rightarrow> string list" where
  "conflicts_deleted_by_us status =
     map (drop 3)
       (filter (\<lambda>l. take 3 l \<in> set [''DD '', ''DU ''] \<and> 3 < length l) (text_lines status))"

text \<open>\<open>[x[0] for x in re.findall(r'^((DD|AU|UD|UA|DU|AA|UU) [^\n]+)$', status,
  flags=re.MULTILINE)]\<close>: the conflict lines, whole.\<close>

definition conflict_lines :: "string \<Rightarrow> string list" where
  "conflict_lines status =
     filter (\<lambda>l. take 3 l \<in> set [''DD '', ''AU '', ''UD '', ''UA '', ''DU '', ''AA '', ''UU ''] \<and>
                 3 < length l)
       (text_lines status)"

definition conflict_prompt :: "string \<Rightarrow> string \<Rightarrow> string" where
  "conflict_prompt conflicts_string commit_message =
     ''The following conflicts exist and must be resolved.'' @ [newline, newline] @
     conflicts_string @ [newline, newline] @
     ''When done, enter a commit message or press enter to use the default ('' @ [CHR 0x27] @
     commit_message @ [CHR 0x27] @ '').'' @ [newline, newline]"

text \<open>The \<open>while True\<close> loop of \<open>_CheckNoConflictsAndCommitMerge\<close>; its value is the
  commit message at the \<open>break\<close>. It ends only when a status shows no conflict line or
  something raises.\<close>

partial_function (option) conflict_loop ::
  "'w ext \<Rightarrow> string \<Rightarrow> string \<Rightarrow> 'w st \<Rightarrow> ((error + string) \<times> 'w st) option" where
  "conflict_loop X cwd commit_message s =
     (case GetCommandStdout X [''git'', ''status'', ''--porcelain''] cwd False s of
        (Inl e, s1) \<Rightarrow> Some (Inl e, s1)
      | (Inr status, s1) \<Rightarrow>
          if conflict_lines status = [] then Some (Inr commit_message, s1)
          else
            (case thenE (emit (Prompt (conflict_prompt (py_join [newline] (conflict_lines status))
                                         commit_message)))
                    (\<lambda>_. call_world (raw_input X (conflict_prompt
                            (py_join [newline] (conflict_lines status)) commit_message))) s1 of
               (Inl e, s2) \<Rightarrow> Some (Inl e, s2)
             | (Inr new_commit_message, s2) \<Rightarrow>
                 conflict_loop X cwd
                   (if new_commit_message \<noteq> [] then new_commit_message else commit_message) s2))"

declare conflict_loop.simps [code]

definition CheckNoConflictsAndCommitMerge :: "'w ext \<Rightarrow> string \<Rightarrow> string \<Rightarrow> (unit, 'w) pprog" where
  "CheckNoConflictsAndCommitMerge X commit_message cwd =
     thenP (liftP (GetCommandStdout X [''git'', ''status'', ''--porcelain''] cwd False)) (\<lambda>status.
     thenP (liftP
       (if conflicts_deleted_by_us status \<noteq> [] then
          thenE (emit (Print (''Keeping ours for the following locally deleted files.'' @
                   [newline] @ ''  '' @
                   py_join ([newline] @ ''  '') (conflicts_deleted_by_us status)))) (\<lambda>_.
          thenE (GetCommandStdout X
                   ([''git'', ''rm'', ''-rf'', ''--ignore-unmatch''] @ conflicts_deleted_by_us status)
                   cwd False) (\<lambda>_. returnE ()))
        else returnE ())) (\<lambda>_.
     thenP (conflict_loop X cwd commit_message) (\<lambda>commit_message'.
     liftP (thenE (GetCommandStdout X [''git'', ''commit'', ''-m'', commit_message'] cwd False)
              (\<lambda>_. returnE ())))))"

section \<open>Merging the projects\<close>

text \<open>\<open>_ModifiedFilesInIndex\<close>: \<open>re.search(r'^[MADRC]', status, flags=re.MULTILINE) != None\<close>,
  some line of the status starts with one of the five letters.\<close>

definition index_modified :: "string \<Rightarrow> bool" where
  "index_modified status = list_ex (\<lambda>l. l \<noteq> [] \<and> hd l \<in> set ''MADRC'') (text_lines status)"

definition ModifiedFilesInIndex :: "'w ext \<Rightarrow> string \<Rightarrow> (bool, 'w) prog" where
  "ModifiedFilesInIndex X cwd =
     thenE (GetCommandStdout X [''git'', ''status'', ''--porcelain''] cwd False) (\<lambda>status.
     returnE (index_modified status))"

text \<open>The body of the loop over \<open>merge_info\<close> in \<open>_MergeProjects\<close>.\<close>

definition merge_project :: "'w ext \<Rightarrow> string \<times> merge_info \<Rightarrow> (unit, 'w) pprog" where
  "merge_project X entry =
     (let path = fst entry; u = url (snd entry); sha = sha1 (snd entry);
          dest_dir = path_join (REPOSITORY_ROOT X) path in
      thenP (liftP (GetCommandStdout X [''git'', ''checkout'', ''-b'', ''merge-from-chromium'',
                      ''-t'', ''goog/master-chromium''] dest_dir False)) (\<lambda>_.
      thenP (liftP (emit (Print (''Fetching project '' @ path @ '' at '' @ sha @ '' ...'')))) (\<lambda>_.
      thenP (liftP (GetCommandStdout X [''git'', ''fetch'', u] dest_dir False)) (\<lambda>_.
      thenP (liftP (GetCommandStdout X [''git'', ''rev-list'', ''-1'', ''HEAD..'' @ sha]
                      dest_dir False)) (\<lambda>new_commits.
        if new_commits \<noteq> [] then
          thenP (liftP (emit (Print (''Merging project '' @ path @ '' at '' @ sha @ '' ...'')))) (\<lambda>_.
          thenP (liftP (GetCommandStdout X [''git'', ''merge'', ''--no-commit'', sha]
                          dest_dir True)) (\<lambda>_.
          CheckNoConflictsAndCommitMerge X
            (''Merge '' @ path @ '' from '' @ u @ '' at '' @ sha @ [newline, newline] @
             AUTOGEN_MESSAGE) dest_dir))
        else liftP (emit (Print (''No new commits to merge in project '' @ path))))))))"

text \<open>One round of the loop over \<open>KNOWN_INCOMPATIBLE\<close> in \<open>_MergeProjects\<close>.\<close>

definition exclude_incompatible :: "'w ext \<Rightarrow> string \<times> string list \<Rightarrow> (unit, 'w) prog" where
  "exclude_incompatible X entry =
     (let path = fst entry; exclude_list = snd entry;
          dest_dir = path_join (REPOSITORY_ROOT X) path in
      thenE (emit (Print (''  '' @ py_join ([newline] @ ''  '') (map (path_join path) exclude_list)))) (\<lambda>_.
      thenE (GetCommandStdout X ([''git'', ''rm'', ''-rf'', ''--ignore-unmatch''] @ exclude_list)
               dest_dir False) (\<lambda>_.
      thenE (ModifiedFilesInIndex X dest_dir) (\<lambda>modified.
        if modified then
          thenE (GetCommandStdout X [''git'', ''commit'', ''-m'', ''Exclude incompatible directories'']
                   dest_dir False) (\<lambda>_. returnE ())
        else returnE ()))))"

text \<open>\<open>_MergeProjects\<close> up to the end of the exclusion loop: the manifest, the merges
  of the sub-projects (in the order of the result dictionary, which Python leaves
  unspecified) and of the root, the imports, the exclusions.\<close>

definition MergeProjects_until_scan ::
  "'w ext \<Rightarrow> string \<Rightarrow> string \<Rightarrow> string \<Rightarrow> string \<Rightarrow> (unit, 'w) pprog" where
  "MergeProjects_until_scan X git_url git_branch svn_revision root_sha1 =
     thenP (liftP (emit (Print ''Parsing DEPS ...''))) (\<lambda>_.
     thenP (liftP (ParseDEPS X git_url git_branch root_sha1)) (\<lambda>dv.
     thenP (liftP (GetThirdPartyProjectMergeInfo THIRD_PARTY_PROJECTS dv)) (\<lambda>merge_info.
     thenP (for_eachP (merge_project X) merge_info) (\<lambda>_.
     thenP (liftP (GetCommandStdout X [''git'', ''checkout'', ''-b'', ''merge-from-chromium'',
                     ''-t'', ''goog/master-chromium''] (REPOSITORY_ROOT X) False)) (\<lambda>_.
     thenP (liftP (emit (Print (''Fetching Chromium at '' @ root_sha1 @ '' ...'')))) (\<lambda>_.
     thenP (liftP (GetCommandStdout X [''git'', ''fetch'', git_url, git_branch]
                     (REPOSITORY_ROOT X) False)) (\<lambda>_.
     thenP (liftP (emit (Print (''Merging Chromium at '' @ root_sha1 @ '' ...'')))) (\<lambda>_.
     thenP (liftP (GetCommandStdout X [''git'', ''merge'', ''--no-commit'', root_sha1]
                     (REPOSITORY_ROOT X) True)) (\<lambda>_.
     thenP (CheckNoConflictsAndCommitMerge X
              (''Merge Chromium from '' @ git_url @ '' branch '' @ git_branch @ '' at r'' @
               svn_revision @ '' ('' @ root_sha1 @ '')'' @ [newline, newline] @ AUTOGEN_MESSAGE)
              (REPOSITORY_ROOT X)) (\<lambda>_.
     thenP (liftP (emit (Print ''Getting directories to exclude ...''))) (\<lambda>_.
     thenP (liftP (call_world (import_license_tools X))) (\<lambda>known_incompatible.
     thenP (liftP (\<lambda>s. (Inr (), s\<lparr>webview_licenses := True\<rparr>))) (\<lambda>_.
     liftP (for_each (exclude_incompatible X) known_incompatible))))))))))))))"

text \<open>The end of \<open>_MergeProjects\<close>: the license scan, \<open>RuntimeError\<close> when directories
  are left over, else \<open>True\<close>.\<close>

definition license_scan :: "'w ext \<Rightarrow> (pyval, 'w) prog" where
  "license_scan X =
     thenE (call_world (GetIncompatibleDirectories X)) (\<lambda>directories_left_over.
       if directories_left_over \<noteq> [] then
         raiseE (RuntimeError (''Incompatibly licensed directories remain: '' @
                   py_join [newline] directories_left_over))
       else returnE (PyBool True))"

definition MergeProjects ::
  "'w ext \<Rightarrow> string \<Rightarrow> string \<Rightarrow> string \<Rightarrow> string \<Rightarrow> (pyval, 'w) pprog" where
  "MergeProjects X git_url git_branch svn_revision root_sha1 =
     thenP (MergeProjects_until_scan X git_url git_branch svn_revision root_sha1) (\<lambda>_.
     liftP (license_scan X))"

section \<open>Makefiles and the NOTICE file\<close>

definition GenerateMakefiles :: "'w ext \<Rightarrow> string \<Rightarrow> (unit, 'w) prog" where
  "GenerateMakefiles X svn_revision =
     thenE (emit (Print ''Regenerating makefiles ...'')) (\<lambda>_.
     thenE (for_each (\<lambda>path.
              thenE (GetCommandStdout X [''git'', ''rm'', ''--ignore-unmatch'', ''GypAndroid.mk'',
                       ''*.target.mk'', ''*.host.mk'', ''*.tmp'']
                       (path_join (REPOSITORY_ROOT X) path) False) (\<lambda>_. returnE ()))
              ALL_PROJECTS) (\<lambda>_.
     thenE (GetCommandStdout X [''bash'', ''-c'',
              ''export CHROME_ANDROID_BUILD_WEBVIEW=1 && '' @
              ''export CHROME_SRC=`pwd` && '' @
              ''export PYTHONDONTWRITEBYTECODE=1 && '' @
              ''. build/android/envsetup.sh && '' @
              ''android_gyp''] (REPOSITORY_ROOT X) False) (\<lambda>_.
     for_each (\<lambda>path.
       thenE (GetCommandStdout X [''git'', ''add'', ''-f'', ''GypAndroid.mk'']
                (path_join (REPOSITORY_ROOT X) path) True) (\<lambda>_.
       thenE (GetCommandStdout X [''git'', ''add'', ''-f'', ''*.target.mk'']
                (path_join (REPOSITORY_ROOT X) path) True) (\<lambda>_.
       thenE (GetCommandStdout X [''git'', ''add'', ''-f'', ''*.host.mk'']
                (path_join (REPOSITORY_ROOT X) path) True) (\<lambda>_.
       thenE (GetCommandStdout X [''git'', ''add'', ''-f'', ''*.tmp'']
                (path_join (REPOSITORY_ROOT X) path) True) (\<lambda>_.
       thenE (ModifiedFilesInIndex X (path_join (REPOSITORY_ROOT X) path)) (\<lambda>modified.
         if modified then
           thenE (GetCommandStdout X [''git'', ''commit'', ''-m'',
                    ''Update makefiles after merge of Chromium at r'' @ svn_revision @
                    [newline, newline] @ AUTOGEN_MESSAGE]
                    (path_join (REPOSITORY_ROOT X) path) False) (\<lambda>_. returnE ())
         else returnE ()))))))
       ALL_PROJECTS)))"

text \<open>\<open>_GenerateNoticeFile\<close>. The global \<open>webview_licenses\<close> is \<open>None\<close> until it is
  imported, and \<open>None.GenerateNoticeFile\<close> is an \<open>AttributeError\<close>.\<close>

definition GenerateNoticeFile :: "'w ext \<Rightarrow> string \<Rightarrow> (unit, 'w) prog" where
  "GenerateNoticeFile X svn_revision =
     thenE (emit (Print ''Regenerating NOTICE file ...'')) (\<lambda>_.
     thenE (\<lambda>s. if webview_licenses s then call_world (GenerateNoticeFile_ext X) s
                 else raiseE (AttributeError ''GenerateNoticeFile'') s) (\<lambda>contents.
     thenE (call_world (write_file X (path_join (REPOSITORY_ROOT X) ''NOTICE'') contents)) (\<lambda>_.
     thenE (emit (FileWrite (path_join (REPOSITORY_ROOT X) ''NOTICE'') contents)) (\<lambda>_.
     thenE (GetCommandStdout X [''git'', ''add'', ''NOTICE''] (REPOSITORY_ROOT X) False) (\<lambda>_.
     thenE (ModifiedFilesInIndex X (REPOSITORY_ROOT X)) (\<lambda>modified.
       if modified then
         thenE (GetCommandStdout X [''git'', ''commit'', ''-m'',
                  ''Update NOTICE file after merge of Chromium at r'' @ svn_revision @
                  [newline, newline] @ AUTOGEN_MESSAGE]
                  (REPOSITORY_ROOT X) False) (\<lambda>_. returnE ())
       else returnE ()))))))"

section \<open>The snapshot driver and the entry point\<close>

text \<open>The first group of \<open>re.search(r'^git-svn-id: .*@([0-9]+)', commit,
  flags=re.MULTILINE)\<close>. Within a line the greedy \<open>.*\<close> ends at the last \<open>@\<close> that a
  digit follows, and the group is the run of digits after it.\<close>

fun last_at_digits :: "string \<Rightarrow> string option" where
  "last_at_digits [] = None"
| "last_at_digits (c # cs) =
     (case last_at_digits cs of
        Some r \<Rightarrow> Some r
      | None \<Rightarrow>
          if c = CHR ''@'' \<and> cs \<noteq> [] \<and> is_digit (hd cs) then Some (takeWhile is_digit cs)
          else None)"

text \<open>The search takes the first line that matches.\<close>

fun search_svn_id_lines :: "string list \<Rightarrow> string option" where
  "search_svn_id_lines [] = None"
| "search_svn_id_lines (l # ls) =
     (if take 12 l = ''git-svn-id: '' then
        (case last_at_digits (drop 12 l) of
           Some r \<Rightarrow> Some r
         | None \<Rightarrow> search_svn_id_lines ls)
      else search_svn_id_lines ls)"

definition search_svn_id :: "string \<Rightarrow> string option" where
  "search_svn_id commit = search_svn_id_lines (text_lines commit)"

text \<open>\<open>_GetSVNRevisionAndSHA1\<close>. \<open>svn_revision\<close> is \<open>None\<close> or the option's string;
  \<open>split()[0]\<close> raises \<open>IndexError\<close> on an output with no token, and \<open>.group\<close> raises
  \<open>AttributeError\<close> when the search found nothing.\<close>

definition GetSVNRevisionAndSHA1 ::
  "'w ext \<Rightarrow> string \<Rightarrow> string \<Rightarrow> string option \<Rightarrow> (string \<times> string, 'w) prog" where
  "GetSVNRevisionAndSHA1 X git_url git_branch svn_revision =
     thenE (emit (Print ''Getting SVN revision and SHA1 ...'')) (\<lambda>_.
     thenE (GetCommandStdout X [''git'', ''fetch'', ''-f'', git_url, git_branch @ '':cached_upstream'']
              (REPOSITORY_ROOT X) False) (\<lambda>_.
       if svn_revision \<noteq> None \<and> svn_revision \<noteq> Some [] then
         thenE (GetCommandStdout X [''git'', ''log'',
                  ''--grep=git-svn-id: .*@'' @ the svn_revision,
                  ''--format=%H'', ''cached_upstream''] (REPOSITORY_ROOT X) False) (\<lambda>out.
           case py_split out of
             [] \<Rightarrow> raiseE (IndexError ''list index out of range'')
           | sha # _ \<Rightarrow> returnE (the svn_revision, sha))
       else
         thenE (GetCommandStdout X [''git'', ''log'', ''-n1'', ''--grep=git-svn-id:'',
                  ''--format=%H%n%b'', ''cached_upstream''] (REPOSITORY_ROOT X) False) (\<lambda>commit.
           case py_split commit of
             [] \<Rightarrow> raiseE (IndexError ''list index out of range'')
           | sha # _ \<Rightarrow>
               (case search_svn_id commit of
                  None \<Rightarrow> raiseE (AttributeError ''group'')
                | Some revision \<Rightarrow> returnE (revision, sha)))))"

definition snapshot_message :: "string \<Rightarrow> string \<Rightarrow> string \<Rightarrow> string \<Rightarrow> string \<Rightarrow> string" where
  "snapshot_message what git_url git_branch svn_revision root_sha1 =
     what @ git_url @ '' branch '' @ git_branch @ '' at r'' @ svn_revision @
     '' ('' @ root_sha1 @ '')''"

text \<open>\<open>_Snapshot\<close>. Neither the early \<open>return\<close> nor the end of the function gives a
  value, so every normal return is \<open>None\<close>.\<close>

definition Snapshot :: "'w ext \<Rightarrow> string \<Rightarrow> string \<Rightarrow> string option \<Rightarrow> (pyval, 'w) pprog" where
  "Snapshot X git_url git_branch svn_revision =
     thenP (liftP (GetSVNRevisionAndSHA1 X git_url git_branch svn_revision)) (\<lambda>(svn_revision', root_sha1).
     thenP (liftP (GetCommandStdout X [''git'', ''rev-list'', ''-1'', ''HEAD..'' @ root_sha1]
                     (REPOSITORY_ROOT X) False)) (\<lambda>new_commits.
       if new_commits = [] then
         liftP (thenE (emit (Print (snapshot_message ''No new commits to merge from ''
                               git_url git_branch svn_revision' root_sha1)))
                  (\<lambda>_. returnE PyNone))
       else
         thenP (liftP (emit (Print (snapshot_message ''Snapshotting Chromium from ''
                               git_url git_branch svn_revision' root_sha1)))) (\<lambda>_.
         thenP (MergeProjects X git_url git_branch svn_revision' root_sha1) (\<lambda>_.
         thenP (liftP (GenerateNoticeFile X svn_revision')) (\<lambda>_.
         thenP (liftP (GenerateMakefiles X svn_revision')) (\<lambda>_.
         liftP (returnE PyNone)))))))"

text \<open>\<open>main\<close>, from the result of \<open>parse_args\<close> on.\<close>

definition main :: "'w ext \<Rightarrow> string list \<Rightarrow> (string \<rightharpoonup> string) \<Rightarrow> (int, 'w) pprog" where
  "main X argv environ =
     (case parse_args X argv of
        ParseExit code \<Rightarrow> liftP (raiseE (SystemExit code))
      | Parsed opts args \<Rightarrow>
          if args \<noteq> [] then liftP (thenE (emit PrintHelp) (\<lambda>_. returnE 1))
          else if ''ANDROID_BUILD_TOP'' \<notin> dom environ then
            liftP (thenE (emit (PrintErr ''You need to run the Android envsetup.sh and lunch.''))
                     (\<lambda>_. returnE 1))
          else
            thenP (Snapshot X (opt_git_url opts) (opt_git_branch opts) (opt_svn_revision opts))
              (\<lambda>r. if \<not> truthy r then liftP (returnE 1) else liftP (returnE 0)))"

text \<open>\<open>sys.exit(main())\<close>: the status of the process. An uncaught exception ends the
  interpreter with status 1, \<open>SystemExit\<close> with its own code; a run that never ends has
  no status.\<close>

definition exit_status :: "((error + int) \<times> 'w st) option \<Rightarrow> int option" where
  "exit_status r =
     (case r of
        None \<Rightarrow> None
      | Some (Inr code, s) \<Rightarrow> Some code
      | Some (Inl (SystemExit code), s) \<Rightarrow> Some code
      | Some (Inl e, s) \<Rightarrow> Some 1)"

definition initial_state :: "'w \<Rightarrow> 'w st" where
  "initial_state w = \<lparr>world = w, events = [], webview_licenses = False\<rparr>"

section \<open>Reading the effects\<close>

text \<open>A \<open>git commit\<close> process.\<close>

fun is_commit :: "event \<Rightarrow> bool" where
  "is_commit (Cmd args cwd returncode out) = (take 2 args = [''git'', ''commit''])"
| "is_commit e = False"

text \<open>A \<open>git status --porcelain\<close> in the given directory that succeeded and showed a
  line starting with one of \<open>M\<close>, \<open>A\<close>, \<open>D\<close>, \<open>R\<close>, \<open>C\<close>.\<close>

fun reports_staged :: "string \<Rightarrow> event \<Rightarrow> bool" where
  "reports_staged dir (Cmd args cwd returncode out) =
     (args = [''git'', ''status'', ''--porcelain''] \<and> cwd = dir \<and> returncode = 0 \<and>
      index_modified out)"
| "reports_staged dir e = False"

fun event_cwd :: "event \<Rightarrow> string" where
  "event_cwd (Cmd args cwd returncode out) = cwd"
| "event_cwd e = []"

text \<open>Every commit in a run of effects comes directly after a status of the same
  directory that reported a change in the index; \<open>prev\<close> is the effect before the run.\<close>

fun commits_guarded_from :: "event option \<Rightarrow> event list \<Rightarrow> bool" where
  "commits_guarded_from prev [] = True"
| "commits_guarded_from prev (e # es) =
     ((if is_commit e then (case prev of None \<Rightarrow> False | Some p \<Rightarrow> reports_staged (event_cwd e) p)
       else True) \<and>
      commits_guarded_from (Some e) es)"

definition commits_guarded :: "event list \<Rightarrow> bool" where
  "commits_guarded es = commits_guarded_from None es"

section \<open>A scripted world for worked examples\<close>

text \<open>The world is the list of outputs that the coming \<open>git status\<close> calls will give
  (nothing to report once the list is used up). \<open>git log\<close> shows one upstream commit
  \<open>abc\<close> of revision 42, \<open>git rev-list\<close> against it gives \<open>new_commits\<close>, every other
  command succeeds silently, and every path under \<open>src/\<close> has the manifest entry
  \<open>u@r\<close>.\<close>

definition scripted_popen ::
  "string \<Rightarrow> string list \<Rightarrow> string \<Rightarrow> string list \<Rightarrow> (error + int \<times> string \<times> string) \<times> string list" where
  "scripted_popen new_commits args cwd w =
     (if take 2 args = [''git'', ''status''] then
        (case w of [] \<Rightarrow> (Inr (0, [], []), []) | out # rest \<Rightarrow> (Inr (0, out, []), rest))
      else if take 2 args = [''git'', ''log''] then
        (Inr (0, ''abc'' @ [newline] @ ''git-svn-id: svn://x/trunk@42 uuid'' @ [newline], []), w)
      else if args = [''git'', ''rev-list'', ''-1'', ''HEAD..abc''] then
        (Inr (0, new_commits, []), w)
      else (Inr (0, [], []), w))"

definition default_options :: options where
  "default_options =
     \<lparr>opt_git_url = ''http://git.chromium.org/chromium/src.git'',
      opt_git_branch = ''git-svn'',
      opt_svn_revision = None\<rparr>"

definition scripted_ext :: "string \<Rightarrow> string list \<Rightarrow> (string list) ext" where
  "scripted_ext new_commits left_over =
     \<lparr>REPOSITORY_ROOT = ''/r'',
      popen = scripted_popen new_commits,
      exec_manifest = (\<lambda>lookup content w.
        (Inr (manifest_of (\<lambda>k. if take 4 k = ''src/'' then Some (PyStr ''u@r'') else None)
                Map.empty Map.empty), w)),
      raw_input = (\<lambda>prompt w. (Inl (External ''EOFError''), w)),
      import_license_tools = (\<lambda>w. (Inr [(''.'', [''x''])], w)),
      GetIncompatibleDirectories = (\<lambda>w. (Inr left_over, w)),
      GenerateNoticeFile_ext = (\<lambda>w. (Inr ''notice'', w)),
      write_file = (\<lambda>path contents w. (Inr (), w)),
      parse_args = (\<lambda>argv. Parsed default_options argv)\<rparr>"

section \<open>Statements about the effects of a run\<close>

text \<open>A program only adds effects, and the effects it adds satisfy \<open>P\<close>.\<close>

definition emits :: "(event list \<Rightarrow> bool) \<Rightarrow> ('w st \<Rightarrow> 'r \<times> 'w st) \<Rightarrow> bool" where
  "emits P m = (\<forall>s. \<exists>new. events (snd (m s)) = events s @ new \<and> P new)"

text \<open>No \<open>git commit\<close> among the effects.\<close>

definition no_commit :: "event list \<Rightarrow> bool" where
  "no_commit es = (\<not> list_ex is_commit es)"

section \<open>Properties of the \<open>Var\<close> lookup\<close>

text \<open>
  C8. A variable lookup checks the caller-supplied override mapping first, then the
  manifest's own \<open>vars\<close> mapping, and returns the first value found; when neither mapping
  defines the name it fails with an error whose message names the variable.
\<close>

theorem Lookup_override_then_vars:
  "Lookup custom_vars local_scope var_name =
     (case custom_vars var_name of
        Some v \<Rightarrow> Inr v
      | None \<Rightarrow>
          (case (case vars local_scope of None \<Rightarrow> Map.empty | Some d \<Rightarrow> d) var_name of
             Some v \<Rightarrow> Inr v
           | None \<Rightarrow> Inl (PyException (''Var is not defined: '' @ var_name))))"
  by (auto simp: Lookup_def dom_def split: option.splits)

section \<open>Auxiliary facts about the resolver\<close>

lemma takeWhile_conj_append:
  "\<forall>c \<in> set u. P c \<Longrightarrow> \<not> P x \<Longrightarrow> takeWhile P (u @ x # r) = u"
  by (induction u) auto

lemma match_url_sha1_first_at:
  assumes "CHR ''@'' \<notin> set u" and "newline \<notin> set u" and "newline \<notin> set r"
  shows "match_url_sha1 (u @ ''@'' @ r) = Some (u, r)"
proof -
  have pre: "takeWhile (\<lambda>c. c \<noteq> CHR ''@'' \<and> c \<noteq> newline) (u @ CHR ''@'' # r) = u"
    using assms by (intro takeWhile_conj_append) auto
  have rest: "takeWhile (\<lambda>c. c \<noteq> newline) r = r"
    using assms by (auto simp: takeWhile_eq_all_conv)
  show ?thesis
    by (simp add: match_url_sha1_def pre rest)
qed

lemma match_url_sha1_SomeD:
  assumes "match_url_sha1 s = Some (u, r)"
  shows "u @ ''@'' @ r = takeWhile (\<lambda>c. c \<noteq> newline) s \<and> CHR ''@'' \<notin> set u \<and> newline \<notin> set u"
proof -
  let ?P = "\<lambda>c. c \<noteq> CHR ''@'' \<and> c \<noteq> newline"
  obtain cs where rest: "dropWhile ?P s = CHR ''@'' # cs"
    and u: "u = takeWhile ?P s" and r: "r = takeWhile (\<lambda>c. c \<noteq> newline) cs"
    using assms
    by (auto simp: match_url_sha1_def Let_def dropWhile_eq_drop split: list.splits if_splits)
  have s: "s = u @ CHR ''@'' # cs"
    using takeWhile_dropWhile_id [of ?P s] rest u by simp
  have pu: "\<forall>c \<in> set u. ?P c"
    unfolding u by (auto dest: set_takeWhileD)
  then have "takeWhile (\<lambda>c. c \<noteq> newline) (u @ CHR ''@'' # cs) = u @ takeWhile (\<lambda>c. c \<noteq> newline) (CHR ''@'' # cs)"
    by (intro takeWhile_append2) auto
  then have "takeWhile (\<lambda>c. c \<noteq> newline) s = u @ ''@'' @ r"
    using s r by (simp add: newline_def)
  with pu show ?thesis by auto
qed

lemma resolve_project_InrD:
  assumes "resolve_project order path result s = (Inr result', s')"
  shows "\<exists>e u r. find_entry order (path_join ''src'' path) = Some (PyStr e) \<and>
           match_url_sha1 e = Some (u, r) \<and>
           result' = AList.update path \<lparr>url = u, sha1 = r\<rparr> result"
  using assms
  by (auto simp: resolve_project_def raiseE_def thenE_def emit_def returnE_def
      split: option.splits pyval.splits)

lemma resolve_project_found:
  assumes "find_entry order (path_join ''src'' path) = Some (PyStr e)"
    and "match_url_sha1 e = Some (u, r)"
  shows "resolve_project order path result s =
           (Inr (AList.update path \<lparr>url = u, sha1 = r\<rparr> result),
            s\<lparr>events := events s @ [Print (got_url_message u r path)]\<rparr>)"
  using assms by (simp add: resolve_project_def thenE_def emit_def returnE_def)

lemma resolve_project_missing:
  assumes "find_entry order (path_join ''src'' path) = None"
  shows "resolve_project order path result s = (Inl (RuntimeError (missing_entry_message path)), s)"
  using assms by (simp add: resolve_project_def raiseE_def)

lemma resolve_projects_InrD:
  assumes "resolve_projects order paths result0 s = (Inr result, s')"
  shows "(\<forall>q. q \<notin> set paths \<longrightarrow> map_of result q = map_of result0 q) \<and>
         (\<forall>q \<in> set paths. \<exists>e u r. find_entry order (path_join ''src'' q) = Some (PyStr e) \<and>
             match_url_sha1 e = Some (u, r) \<and> map_of result q = Some \<lparr>url = u, sha1 = r\<rparr>)"
  using assms
proof (induction paths arbitrary: result0 s)
  case Nil
  then show ?case by simp
next
  case (Cons p paths)
  from Cons.prems obtain r1 s1 where
    step: "resolve_project order p result0 s = (Inr r1, s1)"
    and rest: "resolve_projects order paths r1 s1 = (Inr result, s')"
    by (auto split: prod.splits sum.splits)
  from resolve_project_InrD [OF step] obtain e u r where
    found: "find_entry order (path_join ''src'' p) = Some (PyStr e)"
    and m: "match_url_sha1 e = Some (u, r)"
    and r1: "r1 = AList.update p \<lparr>url = u, sha1 = r\<rparr> result0"
    by blast
  from Cons.IH [OF rest] have
    frame: "\<forall>q. q \<notin> set paths \<longrightarrow> map_of result q = map_of r1 q"
    and hit: "\<forall>q \<in> set paths. \<exists>e u r. find_entry order (path_join ''src'' q) = Some (PyStr e) \<and>
             match_url_sha1 e = Some (u, r) \<and> map_of result q = Some \<lparr>url = u, sha1 = r\<rparr>"
    by blast+
  have a: "\<forall>q. q \<notin> set (p # paths) \<longrightarrow> map_of result q = map_of result0 q"
    using frame r1 by (simp add: update_conv')
  have b: "\<exists>e u r. find_entry order (path_join ''src'' q) = Some (PyStr e) \<and>
             match_url_sha1 e = Some (u, r) \<and> map_of result q = Some \<lparr>url = u, sha1 = r\<rparr>"
    if "q \<in> set (p # paths)" for q
  proof (cases "q \<in> set paths")
    case True
    with hit show ?thesis by blast
  next
    case False
    with that have "q = p" by simp
    moreover have "map_of result p = Some \<lparr>url = u, sha1 = r\<rparr>"
      using frame False \<open>q = p\<close> r1 by (simp add: update_conv')
    ultimately show ?thesis using found m by blast
  qed
  from a b show ?case by blast
qed

lemma resolve_projects_prefix_then_missing:
  assumes "\<forall>q \<in> set pre. \<exists>e u r. find_entry order (path_join ''src'' q) = Some (PyStr e) \<and>
             match_url_sha1 e = Some (u, r)"
    and "find_entry order (path_join ''src'' path) = None"
  shows "fst (resolve_projects order (pre @ path # post) result s) =
           Inl (RuntimeError (missing_entry_message path))"
  using assms(1)
proof (induction pre arbitrary: result s)
  case Nil
  then show ?case by (simp add: resolve_project_missing [OF assms(2)])
next
  case (Cons p pre)
  then obtain e u r where "find_entry order (path_join ''src'' p) = Some (PyStr e)"
    and "match_url_sha1 e = Some (u, r)" by auto
  from resolve_project_found [OF this]
  have step: "resolve_project order p result s =
           (Inr (AList.update p \<lparr>url = u, sha1 = r\<rparr> result),
            s\<lparr>events := events s @ [Print (got_url_message u r p)]\<rparr>)" .
  have "\<forall>q \<in> set pre. \<exists>e u r. find_entry order (path_join ''src'' q) = Some (PyStr e) \<and>
             match_url_sha1 e = Some (u, r)"
    using Cons.prems by simp
  from Cons.IH [OF this] show ?case by (simp add: step)
qed

lemma find_entry_three:
  "find_entry [d, u, a] key =
     (if truthy (dict_get d key) then Some (dict_get d key)
      else if truthy (dict_get u key) then Some (dict_get u key)
      else if truthy (dict_get a key) then Some (dict_get a key)
      else None)"
  by simp

lemma GetThirdPartyProjectMergeInfo_InrD:
  assumes "fst (GetThirdPartyProjectMergeInfo projects dv s) = Inr result"
  shows "\<exists>d os u a. deps dv = Some d \<and> deps_os dv = Some os \<and> os ''unix'' = Some u \<and>
           os ''android'' = Some a \<and>
           fst (resolve_projects [d, u, a] projects [] s) = Inr result"
  using assms
  by (auto simp: GetThirdPartyProjectMergeInfo_def raiseE_def split: option.splits)

lemma resolve_projects_all_found:
  assumes "\<forall>q \<in> set paths. \<exists>e ur sh.
             find_entry order (path_join ''src'' q) = Some (PyStr e) \<and>
             match_url_sha1 e = Some (ur, sh)"
  shows "\<exists>result s'. resolve_projects order paths result0 s = (Inr result, s')"
  using assms
proof (induction paths arbitrary: result0 s)
  case Nil
  then show ?case by simp
next
  case (Cons p paths)
  then obtain e ur sh where "find_entry order (path_join ''src'' p) = Some (PyStr e)"
    and "match_url_sha1 e = Some (ur, sh)" by auto
  from resolve_project_found [OF this]
  have step: "resolve_project order p result0 s =
           (Inr (AList.update p \<lparr>url = ur, sha1 = sh\<rparr> result0),
            s\<lparr>events := events s @ [Print (got_url_message ur sh p)]\<rparr>)" .
  have "\<forall>q \<in> set paths. \<exists>e ur sh.
             find_entry order (path_join ''src'' q) = Some (PyStr e) \<and>
             match_url_sha1 e = Some (ur, sh)"
    using Cons.prems by simp
  from Cons.IH [OF this] show ?case by (simp add: step)
qed

text \<open>The converse reading: when the resolver returned a mapping, the sources were
  defined and each requested path got the split of its first truthy entry.\<close>

lemma resolver_result_from_first_truthy_source:
  assumes "fst (GetThirdPartyProjectMergeInfo projects dv s) = Inr result"
    and "path \<in> set projects"
  shows "\<exists>d os u a e ur sh.
           deps dv = Some d \<and> deps_os dv = Some os \<and> os ''unix'' = Some u \<and>
           os ''android'' = Some a \<and>
           (if truthy (dict_get d (path_join ''src'' path)) then dict_get d (path_join ''src'' path)
            else if truthy (dict_get u (path_join ''src'' path)) then dict_get u (path_join ''src'' path)
            else dict_get a (path_join ''src'' path)) = PyStr e \<and>
           e \<noteq> [] \<and> match_url_sha1 e = Some (ur, sh) \<and>
           map_of result path = Some \<lparr>url = ur, sha1 = sh\<rparr> \<and>
           (path = [] \<or> hd path \<noteq> CHR ''/'' \<longrightarrow> path_join ''src'' path = ''src/'' @ path)"
proof -
  from GetThirdPartyProjectMergeInfo_InrD [OF assms(1)] obtain d os u a where
    src: "deps dv = Some d" "deps_os dv = Some os" "os ''unix'' = Some u" "os ''android'' = Some a"
    and run: "fst (resolve_projects [d, u, a] projects [] s) = Inr result"
    by blast
  obtain s' where "resolve_projects [d, u, a] projects [] s = (Inr result, s')"
    using run by (cases "resolve_projects [d, u, a] projects [] s") auto
  from resolve_projects_InrD [OF this] assms(2) obtain e ur sh where
    found: "find_entry [d, u, a] (path_join ''src'' path) = Some (PyStr e)"
    and m: "match_url_sha1 e = Some (ur, sh)"
    and res: "map_of result path = Some \<lparr>url = ur, sha1 = sh\<rparr>"
    by blast
  let ?k = "path_join ''src'' path"
  from found have pick: "(if truthy (dict_get d ?k) then dict_get d ?k
            else if truthy (dict_get u ?k) then dict_get u ?k
            else dict_get a ?k) = PyStr e"
    by (simp add: find_entry_three split: if_splits)
  from found have ne: "e \<noteq> []"
    by (auto simp: find_entry_three split: if_splits)
  have key: "path = [] \<or> hd path \<noteq> CHR ''/'' \<longrightarrow> path_join ''src'' path = ''src/'' @ path"
    by (auto simp: path_join_def)
  from src pick ne m res key show ?thesis by blast
qed

section \<open>Properties of the revision resolver\<close>

text \<open>
  C2 (as amended). For every manifest that defines \<open>deps\<close>, \<open>deps_os['unix']\<close> and
  \<open>deps_os['android']\<close>, and every list of requested paths each of which has, in the
  first of these three sources (in that order) whose value under the key
  \<open>os.path.join('src', path)\<close> is truthy (present, not \<open>None\<close>, not the empty string),
  an entry string that matches \<open>url@revision\<close>: the resolver returns a mapping, and for
  every requested path the mapping holds the split of that first truthy entry. The key is
  \<open>'src/'\<close> followed by the path for every path that does not start with a slash. So
  when \<open>deps\<close> and \<open>deps_os['android']\<close> both hold non-empty, differing entries, the
  \<open>deps\<close> entry wins.
\<close>

theorem resolver_uses_first_truthy_source:
  assumes "deps dv = Some d" and "deps_os dv = Some os"
    and "os ''unix'' = Some u" and "os ''android'' = Some a"
    and "\<forall>q \<in> set projects. \<exists>e ur sh.
           (if truthy (dict_get d (path_join ''src'' q)) then dict_get d (path_join ''src'' q)
            else if truthy (dict_get u (path_join ''src'' q)) then dict_get u (path_join ''src'' q)
            else dict_get a (path_join ''src'' q)) = PyStr e \<and>
           e \<noteq> [] \<and> match_url_sha1 e = Some (ur, sh)"
    and "path \<in> set projects"
  shows "\<exists>result e ur sh.
           fst (GetThirdPartyProjectMergeInfo projects dv s) = Inr result \<and>
           (if truthy (dict_get d (path_join ''src'' path)) then dict_get d (path_join ''src'' path)
            else if truthy (dict_get u (path_join ''src'' path)) then dict_get u (path_join ''src'' path)
            else dict_get a (path_join ''src'' path)) = PyStr e \<and>
           match_url_sha1 e = Some (ur, sh) \<and>
           map_of result path = Some \<lparr>url = ur, sha1 = sh\<rparr> \<and>
           (path = [] \<or> hd path \<noteq> CHR ''/'' \<longrightarrow> path_join ''src'' path = ''src/'' @ path)"
proof -
  have found: "\<forall>q \<in> set projects. \<exists>e ur sh.
             find_entry [d, u, a] (path_join ''src'' q) = Some (PyStr e) \<and>
             match_url_sha1 e = Some (ur, sh)"
  proof
    fix q assume "q \<in> set projects"
    with assms(5) obtain e ur sh where
      pick: "(if truthy (dict_get d (path_join ''src'' q)) then dict_get d (path_join ''src'' q)
            else if truthy (dict_get u (path_join ''src'' q)) then dict_get u (path_join ''src'' q)
            else dict_get a (path_join ''src'' q)) = PyStr e"
      and ne: "e \<noteq> []" and m: "match_url_sha1 e = Some (ur, sh)"
      by blast
    from pick ne have "find_entry [d, u, a] (path_join ''src'' q) = Some (PyStr e)"
      by (auto simp: find_entry_three split: if_splits)
    with m show "\<exists>e ur sh. find_entry [d, u, a] (path_join ''src'' q) = Some (PyStr e) \<and>
             match_url_sha1 e = Some (ur, sh)"
      by blast
  qed
  from resolve_projects_all_found [OF found, of "[]" s] obtain result s' where
    run: "resolve_projects [d, u, a] projects [] s = (Inr result, s')"
    by blast
  then have ok: "fst (GetThirdPartyProjectMergeInfo projects dv s) = Inr result"
    using assms(1-4) by (simp add: GetThirdPartyProjectMergeInfo_def)
  from resolve_projects_InrD [OF run] assms(6) obtain e ur sh where
    f: "find_entry [d, u, a] (path_join ''src'' path) = Some (PyStr e)"
    and m: "match_url_sha1 e = Some (ur, sh)"
    and res: "map_of result path = Some \<lparr>url = ur, sha1 = sh\<rparr>"
    by blast
  from f have pick: "(if truthy (dict_get d (path_join ''src'' path)) then dict_get d (path_join ''src'' path)
            else if truthy (dict_get u (path_join ''src'' path)) then dict_get u (path_join ''src'' path)
            else dict_get a (path_join ''src'' path)) = PyStr e"
    by (simp add: find_entry_three split: if_splits)
  have key: "path = [] \<or> hd path \<noteq> CHR ''/'' \<longrightarrow> path_join ''src'' path = ''src/'' @ path"
    by (auto simp: path_join_def)
  from ok pick m res key show ?thesis by blast
qed

text \<open>A run of C2: \<open>deps\<close> and \<open>deps_os['android']\<close> give different entries for
  \<open>src/p\<close>, and the \<open>deps\<close> one is returned.\<close>

theorem resolver_uses_first_truthy_source_witness:
  "\<exists>result.
     fst (GetThirdPartyProjectMergeInfo [''p'']
            (manifest_of [''src/p'' \<mapsto> PyStr ''u1@r1''] Map.empty [''src/p'' \<mapsto> PyStr ''u2@r2''])
            example_state) = Inr result \<and>
     map_of result ''p'' = Some \<lparr>url = ''u1'', sha1 = ''r1''\<rparr>"
proof -
  let ?d = "[''src/p'' \<mapsto> PyStr ''u1@r1'']"
  let ?a = "[''src/p'' \<mapsto> PyStr ''u2@r2'']"
  let ?os = "[''unix'' \<mapsto> (Map.empty :: dict), ''android'' \<mapsto> ?a]"
  let ?dv = "manifest_of ?d Map.empty ?a"
  have h1: "deps ?dv = Some ?d" by (simp add: manifest_of_def)
  have h2: "deps_os ?dv = Some ?os" by (simp add: manifest_of_def)
  have h3: "?os ''unix'' = Some Map.empty" by simp
  have h4: "?os ''android'' = Some ?a" by simp
  have h5: "\<forall>q \<in> set [''p'']. \<exists>e ur sh.
           (if truthy (dict_get ?d (path_join ''src'' q)) then dict_get ?d (path_join ''src'' q)
            else if truthy (dict_get Map.empty (path_join ''src'' q))
                 then dict_get Map.empty (path_join ''src'' q)
            else dict_get ?a (path_join ''src'' q)) = PyStr e \<and>
           e \<noteq> [] \<and> match_url_sha1 e = Some (ur, sh)"
    by (simp add: path_join_def dict_get_def match_url_sha1_def newline_def)
  have h6: "''p'' \<in> set [''p'']" by simp
  from resolver_uses_first_truthy_source [OF h1 h2 h3 h4 h5 h6, of example_state]
  obtain result e ur sh where
    ok: "fst (GetThirdPartyProjectMergeInfo [''p''] ?dv example_state) = Inr result"
    and pick: "(if truthy (dict_get ?d (path_join ''src'' ''p'')) then dict_get ?d (path_join ''src'' ''p'')
            else if truthy (dict_get Map.empty (path_join ''src'' ''p''))
                 then dict_get Map.empty (path_join ''src'' ''p'')
            else dict_get ?a (path_join ''src'' ''p'')) = PyStr e"
    and m: "match_url_sha1 e = Some (ur, sh)"
    and res: "map_of result ''p'' = Some \<lparr>url = ur, sha1 = sh\<rparr>"
    by blast
  from pick have "e = ''u1@r1''"
    by (simp add: path_join_def dict_get_def)
  with m have "ur = ''u1''" and "sh = ''r1''"
    by (simp_all add: match_url_sha1_def newline_def)
  with ok res show ?thesis by blast
qed

text \<open>The claim C2 as stated fails when the first source that defines the path holds a
  falsy value: \<open>deps\<close> defines \<open>src/p\<close> as the empty string, and the resolver returns
  the \<open>deps_os['android']\<close> entry.\<close>

theorem resolver_first_defining_source_counterexample:
  "[''src/p'' \<mapsto> PyStr []] ''src/p'' = Some (PyStr []) \<and>
   fst (GetThirdPartyProjectMergeInfo [''p'']
          (manifest_of [''src/p'' \<mapsto> PyStr []] Map.empty [''src/p'' \<mapsto> PyStr ''u@r''])
          example_state) = Inr [(''p'', \<lparr>url = ''u'', sha1 = ''r''\<rparr>)]"
  by (simp add: GetThirdPartyProjectMergeInfo_def manifest_of_def resolve_project_def
      path_join_def dict_get_def match_url_sha1_def newline_def thenE_def emit_def returnE_def)

text \<open>
  C4 (as amended). With the three mapping sources defined, if a requested path is absent
  from all three and every path requested before it resolves to an entry that matches
  \<open>url@revision\<close>, resolution fails with the \<open>RuntimeError\<close> whose message names that
  path, and no result mapping is produced.
\<close>

theorem missing_entry_fails_naming_first_missing_path:
  assumes "deps dv = Some d" and "deps_os dv = Some os"
    and "os ''unix'' = Some u" and "os ''android'' = Some a"
    and "\<forall>q \<in> set pre. \<exists>e ur sh. find_entry [d, u, a] (path_join ''src'' q) = Some (PyStr e) \<and>
           match_url_sha1 e = Some (ur, sh)"
    and "d (path_join ''src'' path) = None"
    and "u (path_join ''src'' path) = None"
    and "a (path_join ''src'' path) = None"
  shows "fst (GetThirdPartyProjectMergeInfo (pre @ path # post) dv s) =
           Inl (RuntimeError (''Could not find .DEPS.git entry for project '' @ path @
             ''. This probably means that the project list in snapshot.py needs to be updated.''))"
proof -
  have "find_entry [d, u, a] (path_join ''src'' path) = None"
    using assms(6-8) by (simp add: dict_get_def)
  from resolve_projects_prefix_then_missing [OF assms(5) this]
  show ?thesis
    using assms(1-4)
    by (simp add: GetThirdPartyProjectMergeInfo_def missing_entry_message_def)
qed

text \<open>A run of C4: \<open>p\<close> resolves, \<open>q\<close> is in no source, \<open>r\<close> is never reached.\<close>

theorem missing_entry_fails_naming_first_missing_path_witness:
  "fst (GetThirdPartyProjectMergeInfo ([''p''] @ ''q'' # [''r''])
          (manifest_of [''src/p'' \<mapsto> PyStr ''u@r''] Map.empty Map.empty) example_state) =
     Inl (RuntimeError (''Could not find .DEPS.git entry for project '' @ ''q'' @
       ''. This probably means that the project list in snapshot.py needs to be updated.''))"
proof -
  let ?d = "[''src/p'' \<mapsto> PyStr ''u@r'']"
  let ?dv = "manifest_of ?d Map.empty Map.empty"
  have h1: "deps ?dv = Some ?d"
    by (simp add: manifest_of_def)
  have h2: "deps_os ?dv = Some [''unix'' \<mapsto> Map.empty, ''android'' \<mapsto> Map.empty]"
    by (simp add: manifest_of_def)
  have h3: "[''unix'' \<mapsto> Map.empty, ''android'' \<mapsto> (Map.empty :: dict)] ''unix'' = Some Map.empty"
    by simp
  have h4: "[''unix'' \<mapsto> Map.empty, ''android'' \<mapsto> (Map.empty :: dict)] ''android'' = Some Map.empty"
    by simp
  have h5: "\<forall>q \<in> set [''p'']. \<exists>e ur sh.
              find_entry [?d, Map.empty, Map.empty] (path_join ''src'' q) = Some (PyStr e) \<and>
              match_url_sha1 e = Some (ur, sh)"
    by (simp add: path_join_def dict_get_def match_url_sha1_def newline_def)
  have h6: "?d (path_join ''src'' ''q'') = None"
    by (simp add: path_join_def)
  have h7: "(Map.empty :: dict) (path_join ''src'' ''q'') = None"
    by simp
  show ?thesis
    by (rule missing_entry_fails_naming_first_missing_path [OF h1 h2 h3 h4 h5 h6 h7 h7])
qed

text \<open>The claim C4 as stated fails for a requested path that is not the first missing
  one: \<open>a\<close> and \<open>b\<close> are both absent from every source, and the error names \<open>a\<close>,
  not \<open>b\<close>.\<close>

theorem missing_entry_names_every_absent_path_counterexample:
  "fst (GetThirdPartyProjectMergeInfo [''a'', ''b'']
          (manifest_of Map.empty Map.empty Map.empty) example_state) =
     Inl (RuntimeError (missing_entry_message ''a'')) \<and>
   missing_entry_message ''a'' \<noteq> missing_entry_message ''b''"
  by (simp add: GetThirdPartyProjectMergeInfo_def manifest_of_def resolve_project_def
      path_join_def dict_get_def raiseE_def missing_entry_message_def)




text \<open>
  C9 (as amended). For every entry string that contains an \<open>@\<close> and no newline
  character, the resolver's split succeeds, the pair satisfies
  \<open>url @ "@" @ sha1 = entry\<close>, and the url contains no \<open>@\<close>.
\<close>

theorem entry_split_roundtrip:
  assumes "CHR ''@'' \<in> set entry" and "newline \<notin> set entry"
  shows "\<exists>u r. match_url_sha1 entry = Some (u, r) \<and> u @ ''@'' @ r = entry \<and> CHR ''@'' \<notin> set u"
proof -
  obtain u r where e: "entry = u @ CHR ''@'' # r" and u: "CHR ''@'' \<notin> set u"
    using assms(1) by (auto dest: split_list_first)
  have "match_url_sha1 (u @ ''@'' @ r) = Some (u, r)"
    using assms(2) u e by (intro match_url_sha1_first_at) auto
  with e u show ?thesis by auto
qed

text \<open>A run of C9 on the entry of the specification's end-to-end scenario.\<close>

theorem entry_split_roundtrip_witness:
  "CHR ''@'' \<in> set ''https://u/icu@abc123'' \<and> newline \<notin> set ''https://u/icu@abc123'' \<and>
   (\<exists>u r. match_url_sha1 ''https://u/icu@abc123'' = Some (u, r) \<and>
      u @ ''@'' @ r = ''https://u/icu@abc123'' \<and> CHR ''@'' \<notin> set u)"
proof -
  have h1: "CHR ''@'' \<in> set ''https://u/icu@abc123''" by simp
  have h2: "newline \<notin> set ''https://u/icu@abc123''" by (simp add: newline_def)
  from entry_split_roundtrip [OF h1 h2] h1 h2 show ?thesis by blast
qed

text \<open>The claim C9 as stated fails on an entry with a newline after the \<open>@\<close>: the second
  group of the pattern stops at the end of the line, so the pair does not give the entry
  back.\<close>

theorem entry_split_roundtrip_counterexample:
  "CHR ''@'' \<in> set (''u@r'' @ [newline] @ ''x'') \<and>
   match_url_sha1 (''u@r'' @ [newline] @ ''x'') = Some (''u'', ''r'') \<and>
   ''u'' @ ''@'' @ ''r'' \<noteq> ''u@r'' @ [newline] @ ''x''"
  by (simp add: match_url_sha1_def newline_def)

section \<open>Auxiliary facts about effects\<close>

lemma emitsI:
  assumes "\<And>s. \<exists>new. events (snd (m s)) = events s @ new \<and> P new"
  shows "emits P m"
  using assms by (simp add: emits_def)

lemma emitsD:
  assumes "emits P m"
  shows "\<exists>new. events (snd (m s)) = events s @ new \<and> P new"
  using assms by (simp add: emits_def)

lemma emits_returnE: "P [] \<Longrightarrow> emits P (returnE x)"
  by (simp add: emits_def returnE_def)

lemma emits_raiseE: "P [] \<Longrightarrow> emits P (raiseE e)"
  by (simp add: emits_def raiseE_def)

lemma emits_call_world: "P [] \<Longrightarrow> emits P (call_world f)"
  by (simp add: emits_def call_world_def split: prod.splits)

lemma emits_emit: "P [e] \<Longrightarrow> emits P (emit e)"
  by (simp add: emits_def emit_def)

lemma emits_thenE:
  assumes app: "\<And>a b. P a \<Longrightarrow> P b \<Longrightarrow> P (a @ b)"
    and m: "emits P m" and f: "\<And>x. emits P (f x)"
  shows "emits P (thenE m f)"
proof (rule emitsI)
  fix s
  obtain r s1 where ms: "m s = (r, s1)" by (cases "m s")
  from emitsD [OF m, of s] ms obtain a where a: "events s1 = events s @ a" "P a" by auto
  show "\<exists>new. events (snd (thenE m f s)) = events s @ new \<and> P new"
  proof (cases r)
    case (Inl e)
    with ms a show ?thesis by (auto simp: thenE_def)
  next
    case (Inr x)
    from emitsD [OF f, of x s1] obtain b where b: "events (snd (f x s1)) = events s1 @ b" "P b"
      by auto
    have "events (snd (thenE m f s)) = events s @ (a @ b)"
      using ms Inr a b by (simp add: thenE_def)
    with app [OF a(2) b(2)] show ?thesis by blast
  qed
qed

lemma emits_for_each:
  assumes nil: "P []" and app: "\<And>a b. P a \<Longrightarrow> P b \<Longrightarrow> P (a @ b)"
    and body: "\<And>x. emits P (body x)"
  shows "emits P (for_each body xs)"
proof (rule emitsI)
  fix s
  show "\<exists>new. events (snd (for_each body xs s)) = events s @ new \<and> P new"
  proof (induction xs arbitrary: s)
    case Nil
    with nil show ?case by simp
  next
    case (Cons x xs)
    obtain r s1 where bs: "body x s = (r, s1)" by (cases "body x s")
    from emitsD [OF body, of x s] bs obtain a where a: "events s1 = events s @ a" "P a" by auto
    show ?case
    proof (cases r)
      case (Inl e)
      with bs a show ?thesis by auto
    next
      case (Inr u)
      from Cons.IH [of s1] obtain b where
        b: "events (snd (for_each body xs s1)) = events s1 @ b" "P b" by auto
      have "events (snd (for_each body (x # xs) s)) = events s @ (a @ b)"
        using bs Inr a b by simp
      with app [OF a(2) b(2)] show ?thesis by blast
    qed
  qed
qed

lemma emits_GetCommandStdout:
  assumes nil: "P []" and app: "\<And>a b. P a \<Longrightarrow> P b \<Longrightarrow> P (a @ b)"
    and cmd: "\<And>rc out. P [Cmd args cwd rc out]"
    and diag: "\<And>err. P [CommandFailedDiag args err]"
  shows "emits P (GetCommandStdout X args cwd ignore_errors)"
proof -
  have both: "P [Cmd args cwd rc out, CommandFailedDiag args err]" for rc out err
    using app [OF cmd diag, of rc out err] by simp
  show ?thesis
    by (auto simp: emits_def GetCommandStdout_def thenE_def call_world_def emit_def returnE_def
        raiseE_def nil cmd both split: prod.splits sum.splits)
qed

lemma no_commit_nil: "no_commit []"
  by (simp add: no_commit_def)

lemma no_commit_append: "no_commit a \<Longrightarrow> no_commit b \<Longrightarrow> no_commit (a @ b)"
  by (auto simp: no_commit_def list_ex_iff)

lemma emits_no_commit_cmd:
  assumes "take 2 args \<noteq> [''git'', ''commit'']"
  shows "emits no_commit (GetCommandStdout X args cwd ignore_errors)"
  by (rule emits_GetCommandStdout) (use assms in \<open>auto simp: no_commit_def list_ex_iff\<close>)

lemma GetSVNRevisionAndSHA1_no_commit:
  "emits no_commit (GetSVNRevisionAndSHA1 X git_url git_branch svn_revision)"
  unfolding GetSVNRevisionAndSHA1_def
  by (auto intro!: emits_thenE emits_emit emits_no_commit_cmd emits_returnE emits_raiseE
      no_commit_nil no_commit_append simp: no_commit_def split: list.splits option.splits)

lemma thenP_SomeInrD:
  assumes "thenP m f s = Some (Inr v, s')"
  shows "\<exists>x s1. m s = Some (Inr x, s1) \<and> f x s1 = Some (Inr v, s')"
  using assms by (auto simp: thenP_def split: option.splits prod.splits sum.splits)

lemma Snapshot_returns_None:
  assumes "Snapshot X git_url git_branch svn_revision s = Some (Inr v, s')"
  shows "v = PyNone"
  using assms unfolding Snapshot_def
  by (auto dest!: thenP_SomeInrD simp: liftP_def thenE_def emit_def returnE_def
      split: prod.splits if_splits)


lemmas run_defs = thenP_def liftP_def thenE_def returnE_def raiseE_def emit_def call_world_def
  GetCommandStdout_def initial_state_def

lemmas scripted_defs = scripted_ext_def scripted_popen_def default_options_def

lemmas text_defs = py_split_def search_svn_id_def text_lines_def newline_def is_space_def
  is_digit_def snapshot_message_def

section \<open>Properties of the entry point and the snapshot driver\<close>

text \<open>
  C1 (what the code does). When no positional argument is given, \<open>ANDROID_BUILD_TOP\<close> is
  in the environment and \<open>_Snapshot\<close> returns without raising, \<open>main\<close> returns 1 and the
  process exits with status 1, not 0: \<open>_Snapshot\<close> never returns a value, and \<open>main\<close>
  takes a falsy result for failure.
\<close>

theorem main_exit_status_after_successful_snapshot:
  assumes "parse_args X argv = Parsed opts []"
    and "environ ''ANDROID_BUILD_TOP'' = Some build_top"
    and "Snapshot X (opt_git_url opts) (opt_git_branch opts) (opt_svn_revision opts) s = Some (Inr v, s')"
  shows "main X argv environ s = Some (Inr 1, s') \<and> exit_status (main X argv environ s) = Some 1"
proof -
  have "v = PyNone"
    using assms(3) by (rule Snapshot_returns_None)
  then have "main X argv environ s = Some (Inr 1, s')"
    using assms by (simp add: main_def thenP_def liftP_def returnE_def dom_def)
  then show ?thesis
    by (simp add: exit_status_def)
qed

text \<open>A run of C1: default options, the marker present, an upstream with nothing new. The
  snapshot returns normally and the exit status is 1.\<close>

theorem main_exit_status_after_successful_snapshot_witness:
  "exit_status (main (scripted_ext [] []) [] [''ANDROID_BUILD_TOP'' \<mapsto> ''/a''] (initial_state [])) = Some 1"
proof -
  let ?X = "scripted_ext [] [] :: (string list) ext"
  have h1: "parse_args ?X [] = Parsed default_options []"
    by (simp add: scripted_ext_def)
  have h2: "[''ANDROID_BUILD_TOP'' \<mapsto> ''/a''] ''ANDROID_BUILD_TOP'' = Some ''/a''"
    by simp
  have "\<exists>v s'. Snapshot ?X (opt_git_url default_options) (opt_git_branch default_options)
          (opt_svn_revision default_options) (initial_state []) = Some (Inr v, s')"
    by (simp add: Snapshot_def GetSVNRevisionAndSHA1_def run_defs scripted_defs text_defs)
  then obtain v s' where h3: "Snapshot ?X (opt_git_url default_options)
      (opt_git_branch default_options) (opt_svn_revision default_options) (initial_state []) =
      Some (Inr v, s')"
    by blast
  from main_exit_status_after_successful_snapshot
         [where environ = "[''ANDROID_BUILD_TOP'' \<mapsto> ''/a'']", OF h1 h2 h3]
  show ?thesis by (rule conjunct2)
qed

text \<open>
  C5 (what the code does). When \<open>git rev-list -1 HEAD..sha\<close> prints nothing for the
  resolved commit, \<open>_Snapshot\<close> prints the "No new commits" line and returns \<open>None\<close>, and
  no \<open>git commit\<close> is among the commands it ran. The process, though, exits with
  status 1: \<open>main\<close> takes the \<open>None\<close> for a failure.
\<close>

theorem snapshot_without_new_history:
  assumes "GetSVNRevisionAndSHA1 X git_url git_branch svn_revision s = (Inr (revision, sha), s1)"
    and "popen X [''git'', ''rev-list'', ''-1'', ''HEAD..'' @ sha] (REPOSITORY_ROOT X) (world s1) =
           (Inr (0, [], err), w2)"
  shows "\<exists>new s2.
           Snapshot X git_url git_branch svn_revision s = Some (Inr PyNone, s2) \<and>
           events s2 = events s @ new \<and> no_commit new \<and>
           last new = Print (snapshot_message ''No new commits to merge from ''
                               git_url git_branch revision sha) \<and>
           (parse_args X argv =
              Parsed \<lparr>opt_git_url = git_url, opt_git_branch = git_branch,
                      opt_svn_revision = svn_revision\<rparr> [] \<and>
            environ ''ANDROID_BUILD_TOP'' \<noteq> None \<longrightarrow>
            exit_status (main X argv environ s) = Some 1)"
proof -
  let ?args = "[''git'', ''rev-list'', ''-1'', ''HEAD..'' @ sha]"
  let ?msg = "Print (snapshot_message ''No new commits to merge from '' git_url git_branch revision sha)"
  let ?s2 = "s1\<lparr>world := w2, events := events s1 @ [Cmd ?args (REPOSITORY_ROOT X) 0 [], ?msg]\<rparr>"
  from emitsD [OF GetSVNRevisionAndSHA1_no_commit, of X git_url git_branch svn_revision s] assms(1)
  obtain a where a: "events s1 = events s @ a" "no_commit a" by auto
  have run: "Snapshot X git_url git_branch svn_revision s = Some (Inr PyNone, ?s2)"
    using assms by (simp add: Snapshot_def run_defs)
  have ev: "events ?s2 = events s @ (a @ [Cmd ?args (REPOSITORY_ROOT X) 0 [], ?msg])"
    using a by simp
  have nc: "no_commit (a @ [Cmd ?args (REPOSITORY_ROOT X) 0 [], ?msg])"
    using a(2) by (simp add: no_commit_def)
  have lst: "last (a @ [Cmd ?args (REPOSITORY_ROOT X) 0 [], ?msg]) = ?msg"
    by simp
  have ex: "exit_status (main X argv environ s) = Some 1"
    if "parse_args X argv = Parsed \<lparr>opt_git_url = git_url, opt_git_branch = git_branch,
                      opt_svn_revision = svn_revision\<rparr> []"
      and "environ ''ANDROID_BUILD_TOP'' \<noteq> None"
    using that run
    by (auto simp: main_def thenP_def liftP_def returnE_def exit_status_def dom_def)
  from run ev nc lst ex show ?thesis by blast
qed

text \<open>A run of C5 on an upstream with nothing new.\<close>

theorem snapshot_without_new_history_witness:
  "\<exists>new s2.
     Snapshot (scripted_ext [] []) ''url'' ''branch'' None (initial_state []) = Some (Inr PyNone, s2) \<and>
     events s2 = new \<and> no_commit new \<and>
     last new = Print (snapshot_message ''No new commits to merge from '' ''url'' ''branch'' ''42'' ''abc'')"
proof -
  let ?X = "scripted_ext [] [] :: (string list) ext"
  let ?r = "GetSVNRevisionAndSHA1 ?X ''url'' ''branch'' None (initial_state [])"
  have "fst ?r = Inr (''42'', ''abc'')"
    by (simp add: GetSVNRevisionAndSHA1_def run_defs scripted_defs text_defs)
  then have h1: "?r = (Inr (''42'', ''abc''), snd ?r)"
    by (metis prod.collapse)
  have h2: "popen ?X [''git'', ''rev-list'', ''-1'', ''HEAD..'' @ ''abc''] (REPOSITORY_ROOT ?X)
              (world (snd ?r)) = (Inr (0, [], []), world (snd ?r))"
    by (simp add: scripted_defs)
  from snapshot_without_new_history [where argv = "[]" and environ = Map.empty, OF h1 h2]
  obtain new s2 where
    "Snapshot ?X ''url'' ''branch'' None (initial_state []) = Some (Inr PyNone, s2)"
    "events s2 = events (initial_state ([] :: string list)) @ new" "no_commit new"
    "last new = Print (snapshot_message ''No new commits to merge from '' ''url'' ''branch'' ''42'' ''abc'')"
    by blast
  then show ?thesis
    by (auto simp: initial_state_def)
qed

section \<open>Properties of the conflict resolution\<close>




section \<open>Commits of the exclusion, NOTICE and makefile steps\<close>

lemma commits_guarded_from_weaken:
  "commits_guarded_from None es \<Longrightarrow> commits_guarded_from p es"
  by (cases es) (auto split: if_splits)

lemma commits_guarded_from_append:
  "commits_guarded_from p a \<Longrightarrow> commits_guarded_from None b \<Longrightarrow> commits_guarded_from p (a @ b)"
  by (induction a arbitrary: p) (auto intro: commits_guarded_from_weaken)

lemma commits_guarded_nil: "commits_guarded []"
  by (simp add: commits_guarded_def)

lemma commits_guarded_append:
  "commits_guarded a \<Longrightarrow> commits_guarded b \<Longrightarrow> commits_guarded (a @ b)"
  unfolding commits_guarded_def by (rule commits_guarded_from_append)

lemma commits_guarded_single: "\<not> is_commit e \<Longrightarrow> commits_guarded [e]"
  by (simp add: commits_guarded_def)

lemma guarded_thenE:
  assumes "emits commits_guarded m" and "\<And>x. emits commits_guarded (f x)"
  shows "emits commits_guarded (thenE m f)"
proof (rule emits_thenE [where P = commits_guarded])
  show "commits_guarded (a @ b)" if "commits_guarded a" and "commits_guarded b" for a b
    using that by (rule commits_guarded_append)
qed (rule assms)+

lemma guarded_for_each:
  assumes "\<And>x. emits commits_guarded (body x)"
  shows "emits commits_guarded (for_each body xs)"
proof (rule emits_for_each [where P = commits_guarded])
  show "commits_guarded []" by (rule commits_guarded_nil)
  show "commits_guarded (a @ b)" if "commits_guarded a" and "commits_guarded b" for a b
    using that by (rule commits_guarded_append)
qed (rule assms)

lemma guarded_returnE: "emits commits_guarded (returnE x)"
  by (rule emits_returnE [where P = commits_guarded]) (rule commits_guarded_nil)

lemma guarded_raiseE: "emits commits_guarded (raiseE e)"
  by (rule emits_raiseE [where P = commits_guarded]) (rule commits_guarded_nil)

lemma guarded_call_world: "emits commits_guarded (call_world f)"
  by (rule emits_call_world [where P = commits_guarded]) (rule commits_guarded_nil)

lemma guarded_emit: "\<not> is_commit e \<Longrightarrow> emits commits_guarded (emit e)"
  by (rule emits_emit [where P = commits_guarded]) (rule commits_guarded_single)

lemma guarded_cmd:
  assumes "take 2 args \<noteq> [''git'', ''commit'']"
  shows "emits commits_guarded (GetCommandStdout X args cwd ignore_errors)"
  by (rule emits_GetCommandStdout [where P = commits_guarded])
     (use assms in \<open>auto intro: commits_guarded_nil commits_guarded_append commits_guarded_single\<close>)

lemma guarded_commit_block:
  "emits commits_guarded
     (thenE (ModifiedFilesInIndex X cwd) (\<lambda>modified.
        if modified then
          thenE (GetCommandStdout X (''git'' # ''commit'' # rest) cwd False) (\<lambda>_. returnE ())
        else returnE ()))"
  by (auto simp: emits_def ModifiedFilesInIndex_def GetCommandStdout_def thenE_def call_world_def
      emit_def returnE_def raiseE_def commits_guarded_def split: prod.splits sum.splits)

lemma guarded_if_state:
  assumes "emits commits_guarded m" and "emits commits_guarded n"
  shows "emits commits_guarded (\<lambda>s. if c s then m s else n s)"
  using assms by (auto simp: emits_def)

lemma exclude_incompatible_guarded: "emits commits_guarded (exclude_incompatible X entry)"
  unfolding exclude_incompatible_def Let_def
  by (intro guarded_commit_block guarded_thenE guarded_cmd guarded_emit) simp_all

lemma GenerateNoticeFile_guarded: "emits commits_guarded (GenerateNoticeFile X svn_revision)"
  unfolding GenerateNoticeFile_def
  by (intro guarded_commit_block guarded_thenE guarded_cmd guarded_emit guarded_if_state
      guarded_call_world guarded_raiseE) simp_all

lemma GenerateMakefiles_guarded: "emits commits_guarded (GenerateMakefiles X svn_revision)"
  unfolding GenerateMakefiles_def
  by (intro guarded_commit_block guarded_thenE guarded_for_each guarded_cmd guarded_emit
      guarded_returnE) simp_all

text \<open>
  C10. In the exclusion pass, the NOTICE step and the makefile step, the effects a run adds
  contain a \<open>git commit\<close> only directly after a successful \<open>git status --porcelain\<close>
  of the same directory whose output has a line starting with one of \<open>M\<close>, \<open>A\<close>,
  \<open>D\<close>, \<open>R\<close>, \<open>C\<close>. So when the index reports no such change, the step runs no
  commit and the history stays as it was.
\<close>

theorem commits_only_after_staged_status:
  "(\<exists>new. events (snd (for_each (exclude_incompatible X) known_incompatible s)) = events s @ new \<and>
          commits_guarded new) \<and>
   (\<exists>new. events (snd (GenerateNoticeFile X svn_revision s)) = events s @ new \<and>
          commits_guarded new) \<and>
   (\<exists>new. events (snd (GenerateMakefiles X svn_revision s)) = events s @ new \<and>
          commits_guarded new)"
proof (intro conjI)
  have "emits commits_guarded (for_each (exclude_incompatible X) known_incompatible)"
    by (rule guarded_for_each) (rule exclude_incompatible_guarded)
  then show "\<exists>new. events (snd (for_each (exclude_incompatible X) known_incompatible s)) =
      events s @ new \<and> commits_guarded new"
    by (rule emitsD)
  show "\<exists>new. events (snd (GenerateNoticeFile X svn_revision s)) = events s @ new \<and>
      commits_guarded new"
    using GenerateNoticeFile_guarded by (rule emitsD)
  show "\<exists>new. events (snd (GenerateMakefiles X svn_revision s)) = events s @ new \<and>
      commits_guarded new"
    using GenerateMakefiles_guarded by (rule emitsD)
qed

text \<open>A run of C10: the NOTICE step in a repository whose status shows a staged
  \<open>NOTICE\<close>; the step commits, and the commit is guarded.\<close>

theorem commits_only_after_staged_status_witness:
  "\<exists>new. events (snd (GenerateNoticeFile (scripted_ext [] []) ''42''
                 \<lparr>world = [''M  NOTICE'' @ [newline]], events = [], webview_licenses = True\<rparr>)) = new \<and>
          commits_guarded new \<and> list_ex is_commit new"
proof -
  let ?X = "scripted_ext [] [] :: (string list) ext"
  let ?s = "\<lparr>world = [''M  NOTICE'' @ [newline]], events = [], webview_licenses = True\<rparr>"
  from commits_only_after_staged_status [of ?X "[]" ?s "''42''"]
  obtain new where new: "events (snd (GenerateNoticeFile ?X ''42'' ?s)) = events ?s @ new"
    and g: "commits_guarded new"
    by blast
  have "list_ex is_commit (events (snd (GenerateNoticeFile ?X ''42'' ?s)))"
    by (simp add: GenerateNoticeFile_def ModifiedFilesInIndex_def index_modified_def run_defs
        scripted_defs text_lines_def newline_def path_join_def AUTOGEN_MESSAGE_def)
  with new g show ?thesis by simp
qed

section \<open>The license scan after the exclusion pass\<close>

text \<open>
  C7. When \<open>_MergeProjects\<close> has come through the merges and the exclusion pass and the
  license scanner then reports a list of directories: if the list is not empty,
  \<open>_MergeProjects\<close> raises the \<open>RuntimeError\<close> whose message lists the directories, one
  per line, and \<open>_Snapshot\<close> ends with that same error (the NOTICE and makefile steps are
  not run); if the list is empty, \<open>_MergeProjects\<close> returns \<open>True\<close>.
\<close>

theorem license_scan_decides_merge:
  assumes "MergeProjects_until_scan X git_url git_branch svn_revision root_sha1 s = Some (Inr (), s2)"
    and "GetIncompatibleDirectories X (world s2) = (Inr directories_left_over, w3)"
  shows "MergeProjects X git_url git_branch svn_revision root_sha1 s =
           Some (if directories_left_over \<noteq> [] then
                   Inl (RuntimeError (''Incompatibly licensed directories remain: '' @
                          py_join [newline] directories_left_over))
                 else Inr (PyBool True),
                 s2\<lparr>world := w3\<rparr>) \<and>
         (directories_left_over \<noteq> [] \<and>
          GetSVNRevisionAndSHA1 X git_url git_branch requested s0 =
            (Inr (svn_revision, root_sha1), s1) \<and>
          GetCommandStdout X [''git'', ''rev-list'', ''-1'', ''HEAD..'' @ root_sha1]
            (REPOSITORY_ROOT X) False s1 = (Inr new_commits, s1') \<and>
          new_commits \<noteq> [] \<and>
          s = s1'\<lparr>events := events s1' @
                [Print (snapshot_message ''Snapshotting Chromium from ''
                          git_url git_branch svn_revision root_sha1)]\<rparr> \<longrightarrow>
          Snapshot X git_url git_branch requested s0 =
            Some (Inl (RuntimeError (''Incompatibly licensed directories remain: '' @
                         py_join [newline] directories_left_over)),
                  s2\<lparr>world := w3\<rparr>))"
proof -
  have merge: "MergeProjects X git_url git_branch svn_revision root_sha1 s =
           Some (if directories_left_over \<noteq> [] then
                   Inl (RuntimeError (''Incompatibly licensed directories remain: '' @
                          py_join [newline] directories_left_over))
                 else Inr (PyBool True),
                 s2\<lparr>world := w3\<rparr>)"
    using assms
    by (simp add: MergeProjects_def license_scan_def thenP_def liftP_def thenE_def call_world_def
        raiseE_def returnE_def)
  have "Snapshot X git_url git_branch requested s0 =
            Some (Inl (RuntimeError (''Incompatibly licensed directories remain: '' @
                         py_join [newline] directories_left_over)),
                  s2\<lparr>world := w3\<rparr>)"
    if "directories_left_over \<noteq> []"
      and "GetSVNRevisionAndSHA1 X git_url git_branch requested s0 =
            (Inr (svn_revision, root_sha1), s1)"
      and "GetCommandStdout X [''git'', ''rev-list'', ''-1'', ''HEAD..'' @ root_sha1]
            (REPOSITORY_ROOT X) False s1 = (Inr new_commits, s1')"
      and "new_commits \<noteq> []"
      and "s = s1'\<lparr>events := events s1' @
                [Print (snapshot_message ''Snapshotting Chromium from ''
                          git_url git_branch svn_revision root_sha1)]\<rparr>"
    using that merge
    by (simp add: Snapshot_def thenP_def liftP_def emit_def)
  with merge show ?thesis by blast
qed

text \<open>A run of C7: every sub-project is up to date, the root merges cleanly, one
  exclusion is applied, and the scanner still reports \<open>bad\<close>.\<close>

theorem license_scan_decides_merge_witness:
  "map_option fst (MergeProjects (scripted_ext ''abc'' [''bad'']) ''url'' ''branch'' ''42'' ''abc''
                     (initial_state [])) =
     Some (Inl (RuntimeError (''Incompatibly licensed directories remain: '' @
                  py_join [newline] [''bad''])))"
proof -
  let ?X = "scripted_ext ''abc'' [''bad''] :: (string list) ext"
  let ?M = "MergeProjects_until_scan ?X ''url'' ''branch'' ''42'' ''abc'' (initial_state [])"
  have "map_option fst ?M = Some (Inr ())"
    by (simp add: MergeProjects_until_scan_def ParseDEPS_def ReadGitFile_def
        GetThirdPartyProjectMergeInfo_def THIRD_PARTY_PROJECTS_def resolve_project_def
        manifest_of_def dict_get_def path_join_def match_url_sha1_def merge_project_def
        exclude_incompatible_def ModifiedFilesInIndex_def index_modified_def
        CheckNoConflictsAndCommitMerge_def conflict_loop.simps run_defs scripted_defs
        conflict_lines_def conflicts_deleted_by_us_def text_lines_def newline_def
        AUTOGEN_MESSAGE_def Let_def)
  then obtain s2 where h1: "?M = Some (Inr (), s2)"
    by (cases ?M) auto
  have h2: "GetIncompatibleDirectories ?X (world s2) = (Inr [''bad''], world s2)"
    by (simp add: scripted_ext_def)
  from license_scan_decides_merge [OF h1 h2, THEN conjunct1] show ?thesis
    by simp
qed

end
